theory Spec2Isabelle
  imports Complex_Main "HOL-Library.Word" "HOL-Library.Log_Nat"
begin

section \<open>The server: \<open>src/server.ts\<close>\<close>

text \<open>
  The SQLite database is modelled by the two tables the properties below are about.
  A table is the list of its rows in insertion order, together with the counter that
  \<open>AUTOINCREMENT\<close> keeps for it (ids are never reused, also after \<open>DELETE\<close>).
  The columns of the users table are taken at the types of the client's interface
  \<open>UserProfile\<close>: text columns are strings, the limit is an integer.

  SQLite types values, not columns. What the \<open>duration_seconds\<close> column of a row holds
  is a 64-bit \<open>INTEGER\<close> or a \<open>REAL\<close>; the value of a \<open>REAL\<close> is a floating-point
  number and is not modelled.

  A \<open>timestamp\<close> is the number of seconds since the epoch, in UTC, which is what
  \<open>CURRENT_TIMESTAMP\<close> and \<open>date('now')\<close> of SQLite read. The clock is an argument of
  every handler that reads it.
\<close>

record UserProfile =
  name :: string
  role :: string
  daily_limit_minutes :: int

record user_row = UserProfile +
  user_id :: nat

datatype sqlnum = SqlInteger "64 word" | SqlReal

record UsageLog =
  log_id :: nat
  timestamp :: nat
  app_name :: string
  duration_seconds :: sqlnum

record database =
  users :: "user_row list"
  users_seq :: nat
  usage_logs :: "UsageLog list"
  usage_logs_seq :: nat

text \<open>The tables as \<open>CREATE TABLE IF NOT EXISTS\<close> leaves them on a fresh file.\<close>

definition empty_database :: database where
  "empty_database = \<lparr>users = [], users_seq = 0, usage_logs = [], usage_logs_seq = 0\<rparr>"

subsection \<open>\<open>GET /api/user\<close> and \<open>POST /api/user\<close>\<close>

text \<open>
  \<open>SELECT * FROM users LIMIT 1\<close> gives the first row or \<open>undefined\<close>; the handler
  answers \<open>user || {name: "Guest", role: "it_worker", daily_limit_minutes: 360}\<close>.
  The answer is the profile and, when it is a row, the row's id.
\<close>

definition guest_profile :: UserProfile where
  "guest_profile = \<lparr>name = ''Guest'', role = ''it_worker'', daily_limit_minutes = 360\<rparr>"

definition select_user_limit_1 :: "database \<Rightarrow> user_row option" where
  "select_user_limit_1 db = (case users db of [] \<Rightarrow> None | u # _ \<Rightarrow> Some u)"

definition api_get_user :: "database \<Rightarrow> nat option \<times> UserProfile" where
  "api_get_user db =
     (case select_user_limit_1 db of
        None \<Rightarrow> (None, guest_profile)
      | Some u \<Rightarrow> (Some (user_id u), UserProfile.truncate u))"

text \<open>
  \<open>DELETE FROM users\<close>, then \<open>INSERT INTO users (name, role, daily_limit_minutes)\<close>
  with the three fields of the request body.
\<close>

definition delete_from_users :: "database \<Rightarrow> database" where
  "delete_from_users db = db\<lparr>users := []\<rparr>"

definition insert_into_users :: "UserProfile \<Rightarrow> database \<Rightarrow> database" where
  "insert_into_users body db =
     db\<lparr>users := users db @
            [\<lparr>name = name body, role = role body,
              daily_limit_minutes = daily_limit_minutes body,
              user_id = Suc (users_seq db)\<rparr>],
        users_seq := Suc (users_seq db)\<rparr>"

definition api_post_user :: "UserProfile \<Rightarrow> database \<Rightarrow> database" where
  "api_post_user body db = insert_into_users body (delete_from_users db)"

subsection \<open>\<open>POST /api/usage\<close> and \<open>GET /api/stats\<close>\<close>

text \<open>
  The duration of a request is a JSON number, which \<open>express.json()\<close> reads as a
  double. \<open>Whole n\<close> is the double nearest to the integer \<open>n\<close>, ties to the even
  significand; every double that is an integer is of this form, and so is \<open>Infinity\<close>,
  which a literal beyond the largest double reads as. \<open>Fractional\<close> is a double that is
  not an integer; its value is not modelled.

  \<open>double_of_int n\<close> is the value of the double nearest to \<open>n\<close>: up to \<open>2^53\<close> in
  magnitude that is \<open>n\<close> itself, beyond it \<open>n\<close> is rounded to 53 significant bits
  (beyond the largest double the value is not \<open>Infinity\<close> but still of magnitude \<open>2^63\<close>
  or more, which is all that is read of it below).
\<close>

datatype json_number = Whole int | Fractional

definition round_half_even :: "nat \<Rightarrow> nat \<Rightarrow> nat" where
  "round_half_even m k =
     (let q = m div 2 ^ k; r = m mod 2 ^ k
      in (if 2 ^ k < 2 * r \<or> (2 * r = 2 ^ k \<and> odd q) then q + 1 else q) * 2 ^ k)"

definition double_of_int :: "int \<Rightarrow> int" where
  "double_of_int n =
     (if \<bar>n\<bar> \<le> 2 ^ 53 then n
      else sgn n * int (round_half_even (nat \<bar>n\<bar>) (floorlog 2 (nat \<bar>n\<bar>) - 53)))"

text \<open>
  The driver binds the JavaScript number as a double, and the \<open>INTEGER\<close> affinity of the
  column turns a double that is an integer strictly between \<open>-2^63\<close> and \<open>2^63\<close> into a
  64-bit \<open>INTEGER\<close>; every other double stays a \<open>REAL\<close>.
\<close>

definition stored_number :: "json_number \<Rightarrow> sqlnum" where
  "stored_number d =
     (case d of
        Whole n \<Rightarrow>
          (let x = double_of_int n
           in if - (2 ^ 63) < x \<and> x < 2 ^ 63 then SqlInteger (word_of_int x) else SqlReal)
      | Fractional \<Rightarrow> SqlReal)"

text \<open>
  \<open>INSERT INTO usage_logs (app_name, duration_seconds) VALUES (?, ?)\<close>: the row's
  timestamp is the column default \<open>CURRENT_TIMESTAMP\<close>. The handler looks at neither
  value of the body before it inserts.
\<close>

definition api_post_usage :: "nat \<Rightarrow> string \<times> json_number \<Rightarrow> database \<Rightarrow> database" where
  "api_post_usage now body db =
     db\<lparr>usage_logs := usage_logs db @
            [\<lparr>log_id = Suc (usage_logs_seq db), timestamp = now,
              app_name = fst body, duration_seconds = stored_number (snd body)\<rparr>],
        usage_logs_seq := Suc (usage_logs_seq db)\<rparr>"

text \<open>
  \<open>date('now')\<close> is the text \<open>YYYY-MM-DD\<close> of the current UTC day and a stored timestamp
  is \<open>YYYY-MM-DD HH:MM:SS\<close>; the comparison \<open>timestamp >= date('now')\<close> of the two texts
  holds exactly when the timestamp's day is not before today. \<open>sql_date\<close> is the day
  number of an instant.
\<close>

definition sql_date :: "nat \<Rightarrow> nat" where
  "sql_date t = t div 86400"

definition logs_today :: "nat \<Rightarrow> database \<Rightarrow> UsageLog list" where
  "logs_today now db = filter (\<lambda>r. sql_date now \<le> sql_date (timestamp r)) (usage_logs db)"

text \<open>
  \<open>SUM\<close> goes through the rows in order. Over no rows it is \<open>NULL\<close>. Over \<open>INTEGER\<close> rows
  it adds in 64 bits and, once an addition leaves the 64-bit range, ends in the error
  "integer overflow". With a \<open>REAL\<close> row it leaves integer arithmetic; what it answers
  then is not modelled.
\<close>

datatype aggregate = SumNull | SumInteger int | SumOverflow | SumReal

definition in_int64 :: "int \<Rightarrow> bool" where
  "in_int64 i = (- (2 ^ 63) \<le> i \<and> i < 2 ^ 63)"

fun sum_step :: "aggregate \<Rightarrow> sqlnum \<Rightarrow> aggregate" where
  "sum_step SumNull (SqlInteger v) = SumInteger (sint v)"
| "sum_step (SumInteger i) (SqlInteger v) =
     (if in_int64 (i + sint v) then SumInteger (i + sint v) else SumOverflow)"
| "sum_step SumOverflow (SqlInteger v) = SumOverflow"
| "sum_step SumReal (SqlInteger v) = SumReal"
| "sum_step a SqlReal = SumReal"

definition sql_sum :: "sqlnum list \<Rightarrow> aggregate" where
  "sql_sum xs = foldl sum_step SumNull xs"

definition day_sum :: "nat \<Rightarrow> database \<Rightarrow> aggregate" where
  "day_sum now db = sql_sum (map duration_seconds (logs_today now db))"

text \<open>\<open>total || 0\<close>: \<open>null\<close> and \<open>0\<close> are falsy.\<close>

definition or_zero :: "int option \<Rightarrow> int" where
  "or_zero t = (case t of None \<Rightarrow> 0 | Some n \<Rightarrow> if n = 0 then 0 else n)"

text \<open>
  The answer of \<open>GET /api/stats\<close>. The driver hands an \<open>INTEGER\<close> to JavaScript as a
  double; the error of \<open>SUM\<close> is thrown by \<open>get()\<close>, and the request is answered with
  status 500.
\<close>

datatype stats = TotalSeconds int | Http500 | RealTotal

definition api_stats :: "nat \<Rightarrow> database \<Rightarrow> stats" where
  "api_stats now db =
     (case day_sum now db of
        SumNull \<Rightarrow> TotalSeconds (or_zero None)
      | SumInteger i \<Rightarrow> TotalSeconds (or_zero (Some (double_of_int i)))
      | SumOverflow \<Rightarrow> Http500
      | SumReal \<Rightarrow> RealTotal)"

text \<open>A sequence of record calls, each at its own instant.\<close>

fun record_calls :: "(nat \<times> string \<times> json_number) list \<Rightarrow> database \<Rightarrow> database" where
  "record_calls [] db = db"
| "record_calls ((t, body) # cs) db = record_calls cs (api_post_usage t body db)"

section \<open>The client: the \<open>App\<close> component\<close>

text \<open>
  The component's state is the record of its \<open>useState\<close> cells. Two more fields stand
  for what \<open>handleEmergency\<close> leaves outside React: \<open>timeouts\<close>, the callbacks that
  \<open>setTimeout\<close> has scheduled and that have not run yet, each with the \<open>guardians\<close> its
  closure captured, and \<open>alerts\<close>, the alerts shown so far, each the list of guardians
  it names.

  \<open>fatigueLevel\<close> and \<open>recommendation\<close> hold JavaScript values, because
  \<open>analyzeFatigue\<close> stores fields of a parsed JSON value of any shape in them.
\<close>

datatype jsval =
    JNull
  | JBool bool
  | JNum real
  | JStr string
  | JArr "jsval list"
  | JObj "(string \<times> jsval) list"

datatype view = Dashboard | Settings | Guardians | Locked | Routine

record Guardian =
  guardian_id :: nat
  guardian_name :: string
  phone :: string
  email :: string

record Routine =
  routine_id :: nat
  routine_time :: string
  activity :: string
  completed :: int

record app =
  view :: view
  user :: UserProfile
  guardians :: "Guardian list"
  routines :: "Routine list"
  usageSeconds :: int
  fatigueLevel :: jsval
  isLocked :: bool
  recommendation :: jsval
  isEmergencyActive :: bool
  timeouts :: "Guardian list list"
  alerts :: "Guardian list list"

text \<open>The initial values of the \<open>useState\<close> calls.\<close>

definition initial_app :: app where
  "initial_app =
     \<lparr>view = Dashboard,
      user = \<lparr>name = ''User'', role = ''it_worker'', daily_limit_minutes = 360\<rparr>,
      guardians = [], routines = [], usageSeconds = 0, fatigueLevel = JNum 0,
      isLocked = False, recommendation = JStr ''System learning your patterns...'',
      isEmergencyActive = False, timeouts = [], alerts = []\<rparr>"

subsection \<open>The lock effect\<close>

text \<open>
  \<open>if (usageSeconds > limitSeconds && !isLocked) { setIsLocked(true); setView('locked') }\<close>
\<close>

definition limitSeconds :: "app \<Rightarrow> int" where
  "limitSeconds s = daily_limit_minutes (user s) * 60"

definition lock_effect :: "app \<Rightarrow> app" where
  "lock_effect s =
     (if usageSeconds s > limitSeconds s \<and> \<not> isLocked s
      then s\<lparr>isLocked := True, view := Locked\<rparr> else s)"

text \<open>
  The effect's dependencies are \<open>[usageSeconds, user.daily_limit_minutes]\<close>: after a
  state update it runs when one of the two has changed. \<open>rerender s s'\<close> is the state
  after the update from \<open>s\<close> to \<open>s'\<close> and the effect.
\<close>

definition rerender :: "app \<Rightarrow> app \<Rightarrow> app" where
  "rerender s s' =
     (if usageSeconds s' = usageSeconds s
         \<and> daily_limit_minutes (user s') = daily_limit_minutes (user s)
      then s' else lock_effect s')"

subsection \<open>\<open>fetchData\<close>, \<open>trackUsage\<close>, \<open>updateProfile\<close>, \<open>unlockSystem\<close>\<close>

text \<open>
  \<open>fetchData\<close> sets the four cells from the four answers, or nothing when a request
  fails (the \<open>catch\<close> logs).
\<close>

record fetched =
  userData :: UserProfile
  guardiansData :: "Guardian list"
  total_seconds :: int
  routinesData :: "Routine list"

definition fetchData :: "fetched option \<Rightarrow> app \<Rightarrow> app" where
  "fetchData res s =
     (case res of
        None \<Rightarrow> s
      | Some d \<Rightarrow> s\<lparr>user := userData d, guardians := guardiansData d,
                    usageSeconds := total_seconds d, routines := routinesData d\<rparr>)"

text \<open>
  \<open>trackUsage\<close> posts ten seconds of usage and then adds ten to the counter; when the
  \<open>fetch\<close> throws, the counter stays. The argument says whether the \<open>fetch\<close> returned.
\<close>

definition trackUsage :: "bool \<Rightarrow> app \<Rightarrow> app" where
  "trackUsage posted s = (if posted then s\<lparr>usageSeconds := usageSeconds s + 10\<rparr> else s)"

text \<open>
  \<open>updateProfile\<close> posts the form's profile and then sets it and the view; it has no
  \<open>catch\<close>, so when the \<open>fetch\<close> throws nothing is set.
\<close>

definition updateProfile :: "bool \<Rightarrow> UserProfile \<Rightarrow> app \<Rightarrow> app" where
  "updateProfile posted updatedUser s =
     (if posted then s\<lparr>user := updatedUser, view := Dashboard\<rparr> else s)"

definition unlockSystem :: "app \<Rightarrow> app" where
  "unlockSystem s = s\<lparr>isLocked := False, view := Dashboard\<rparr>"

subsection \<open>\<open>analyzeFatigue\<close>\<close>

text \<open>
  The oracle is opaque, so what it does is an argument: the call rejects, or the
  response has no text (then \<open>"{}"\<close> is parsed), or \<open>JSON.parse\<close> throws on the text, or
  \<open>JSON.parse\<close> returns a value.
\<close>

datatype outcome = CallRejects | NoText | Unparseable | Json jsval

datatype error = OracleError | SyntaxError | TypeError

text \<open>
  \<open>result.score\<close>: reading a property of \<open>null\<close> throws; an object has the property when
  the key occurs in it (the last occurrence counts); every other value has not.
\<close>

definition get_property :: "jsval \<Rightarrow> string \<Rightarrow> error + jsval option" where
  "get_property v k =
     (case v of
        JNull \<Rightarrow> Inl TypeError
      | JObj kvs \<Rightarrow> Inr (map_of (rev kvs) k)
      | _ \<Rightarrow> Inr None)"

text \<open>\<open>x || d\<close> on a property that may be \<open>undefined\<close>.\<close>

fun truthy :: "jsval \<Rightarrow> bool" where
  "truthy JNull = False"
| "truthy (JBool b) = b"
| "truthy (JNum x) = (x \<noteq> 0)"
| "truthy (JStr t) = (t \<noteq> [])"
| "truthy (JArr _) = True"
| "truthy (JObj _) = True"

definition or_default :: "jsval option \<Rightarrow> jsval \<Rightarrow> jsval" where
  "or_default p d = (case p of None \<Rightarrow> d | Some v \<Rightarrow> if truthy v then v else d)"

definition parse_response :: "outcome \<Rightarrow> error + jsval" where
  "parse_response r =
     (case r of
        CallRejects \<Rightarrow> Inl OracleError
      | NoText \<Rightarrow> Inr (JObj [])
      | Unparseable \<Rightarrow> Inl SyntaxError
      | Json v \<Rightarrow> Inr v)"

text \<open>
  The body of the \<open>try\<close> block: the error thrown, if any, and the state reached. The
  prompt, built from the routines, the role, the counter, the limit and the time of
  day, goes to the oracle only. The two cells are set one after the other:
  \<open>setFatigueLevel(result.score || 0)\<close>, then
  \<open>setRecommendation(result.recommendation || "Take a short break.")\<close>.
\<close>

definition analyzeFatigue_try :: "outcome \<Rightarrow> app \<Rightarrow> error option \<times> app" where
  "analyzeFatigue_try r s =
     (case parse_response r of
        Inl e \<Rightarrow> (Some e, s)
      | Inr result \<Rightarrow>
          (case get_property result ''score'' of
             Inl e \<Rightarrow> (Some e, s)
           | Inr score \<Rightarrow>
               (let s1 = s\<lparr>fatigueLevel := or_default score (JNum 0)\<rparr> in
                case get_property result ''recommendation'' of
                  Inl e \<Rightarrow> (Some e, s1)
                | Inr rec \<Rightarrow>
                    (None,
                     s1\<lparr>recommendation := or_default rec (JStr ''Take a short break.'')\<rparr>))))"

text \<open>
  The \<open>catch\<close> logs the error and returns: whether the block threw or not, the caller
  gets no error, and the state is the one the block reached.
\<close>

definition analyzeFatigue :: "outcome \<Rightarrow> app \<Rightarrow> error + app" where
  "analyzeFatigue r s =
     (case analyzeFatigue_try r s of
        (Some e, s') \<Rightarrow> Inr s'
      | (None, s') \<Rightarrow> Inr s')"

text \<open>The range that the comment on the \<open>fatigueLevel\<close> cell gives: \<open>// 0-100\<close>.\<close>

definition score_in_range :: "jsval \<Rightarrow> bool" where
  "score_in_range v = (case v of JNum x \<Rightarrow> 0 \<le> x \<and> x \<le> 100 | _ \<Rightarrow> False)"

definition is_text :: "jsval \<Rightarrow> bool" where
  "is_text v = (case v of JStr _ \<Rightarrow> True | _ \<Rightarrow> False)"

definition well_formed_advisory :: "app \<Rightarrow> bool" where
  "well_formed_advisory s = (score_in_range (fatigueLevel s) \<and> is_text (recommendation s))"

text \<open>The outcomes on which the \<open>try\<close> block throws.\<close>

fun oracle_failure :: "outcome \<Rightarrow> bool" where
  "oracle_failure CallRejects = True"
| "oracle_failure Unparseable = True"
| "oracle_failure (Json JNull) = True"
| "oracle_failure _ = False"

text \<open>
  \<open>analyzeFatigue\<close> is asynchronous and sets no timeout on the oracle's call: while the
  call does not settle, the function does not get past its \<open>await\<close>, sets no cell and
  does not finish.
\<close>

datatype oracle_call = NeverSettles | Settles outcome

definition analyzeFatigue_async :: "oracle_call \<Rightarrow> app \<Rightarrow> (error + app) option" where
  "analyzeFatigue_async c s =
     (case c of NeverSettles \<Rightarrow> None | Settles r \<Rightarrow> Some (analyzeFatigue r s))"

subsection \<open>\<open>handleEmergency\<close>\<close>

text \<open>
  \<open>handleEmergency\<close> sets the flag and schedules a callback, which two seconds later
  shows the alert for the guardians it captured and clears the flag.
\<close>

definition handleEmergency :: "app \<Rightarrow> app" where
  "handleEmergency s =
     s\<lparr>isEmergencyActive := True, timeouts := timeouts s @ [guardians s]\<rparr>"

definition timeout_fires :: "app \<Rightarrow> app" where
  "timeout_fires s =
     (case timeouts s of
        [] \<Rightarrow> s
      | g # rest \<Rightarrow> s\<lparr>timeouts := rest, alerts := alerts s @ [g], isEmergencyActive := False\<rparr>)"

text \<open>
  The two buttons whose \<open>onClick\<close> is \<open>handleEmergency\<close>: the one of the dashboard is
  \<open>disabled={isEmergencyActive}\<close>, the one of the locked view has no such attribute.
  Each is rendered in its own view only.
\<close>

definition click_emergency :: "app \<Rightarrow> app" where
  "click_emergency s =
     (case view s of
        Dashboard \<Rightarrow> if isEmergencyActive s then s else handleEmergency s
      | Locked \<Rightarrow> handleEmergency s
      | _ \<Rightarrow> s)"

subsection \<open>What can happen to the component\<close>

text \<open>
  One action is one handler run, or one asynchronous function run from its request's
  answer on. \<open>analyzeFatigue\<close> is started by the effect on a counter that is a positive
  multiple of 60 and finishes whenever the oracle answers, so it is an action that may
  come at any time.
\<close>

datatype action =
    FetchData "fetched option"
  | TrackUsage bool
  | AnalyzeFatigue outcome
  | ClickEmergency
  | TimeoutFires
  | UnlockSystem
  | UpdateProfile bool UserProfile
  | SetView view

text \<open>The navigation buttons set one of the four views other than the locked one.\<close>

definition navigate :: "view \<Rightarrow> app \<Rightarrow> app" where
  "navigate v s = (if v = Locked then s else s\<lparr>view := v\<rparr>)"

fun handler :: "action \<Rightarrow> app \<Rightarrow> app" where
  "handler (FetchData res) s = fetchData res s"
| "handler (TrackUsage posted) s = trackUsage posted s"
| "handler (AnalyzeFatigue r) s = (case analyzeFatigue r s of Inl e \<Rightarrow> s | Inr s' \<Rightarrow> s')"
| "handler ClickEmergency s = click_emergency s"
| "handler TimeoutFires s = timeout_fires s"
| "handler UnlockSystem s = unlockSystem s"
| "handler (UpdateProfile posted u) s = updateProfile posted u s"
| "handler (SetView v) s = navigate v s"

definition step :: "action \<Rightarrow> app \<Rightarrow> app" where
  "step a s = rerender s (handler a s)"

fun run :: "action list \<Rightarrow> app \<Rightarrow> app" where
  "run [] s = s"
| "run (a # as) s = run as (step a s)"

section \<open>Server and client together\<close>

text \<open>
  The client's requests reach the server of the first section. \<open>mount\<close> is the
  \<open>fetchData\<close> of the first effect, \<open>tick\<close> one run of the interval's \<open>trackUsage\<close>
  (the request \<open>{app_name: 'Vigilant App', duration_seconds: 10}\<close> is answered).
  The guardians and routines tables are not modelled: their answers are arguments.

  When \<open>GET /api/stats\<close> answers with status 500, \<open>statsRes.json()\<close> throws and
  \<open>fetchData\<close> sets nothing. A floating-point total would make the counter a
  floating-point number, which the component's state here does not hold: \<open>mount\<close> gives
  no state then.
\<close>

record system =
  server :: database
  client :: app

definition mount :: "nat \<Rightarrow> Guardian list \<Rightarrow> Routine list \<Rightarrow> system \<Rightarrow> system option" where
  "mount now gs rs sys =
     (case api_stats now (server sys) of
        TotalSeconds t \<Rightarrow>
          Some (sys\<lparr>client :=
                  step (FetchData (Some \<lparr>userData = snd (api_get_user (server sys)),
                                         guardiansData = gs, total_seconds = t,
                                         routinesData = rs\<rparr>)) (client sys)\<rparr>)
      | Http500 \<Rightarrow> Some (sys\<lparr>client := step (FetchData None) (client sys)\<rparr>)
      | RealTotal \<Rightarrow> None)"

definition tick :: "nat \<Rightarrow> system \<Rightarrow> system" where
  "tick now sys =
     \<lparr>server = api_post_usage now (''Vigilant App'', Whole 10) (server sys),
      client = step (TrackUsage True) (client sys)\<rparr>"

fun ticks :: "nat list \<Rightarrow> system \<Rightarrow> system" where
  "ticks [] sys = sys"
| "ticks (t # ts) sys = ticks ts (tick t sys)"

section \<open>Example states\<close>

text \<open>A profile with a limit of one minute, fifty seconds used.\<close>

definition one_minute_app :: app where
  "one_minute_app =
     initial_app\<lparr>user := \<lparr>name = ''User'', role = ''it_worker'', daily_limit_minutes = 1\<rparr>,
                 usageSeconds := 50\<rparr>"

definition two_guardians :: "Guardian list" where
  "two_guardians =
     [\<lparr>guardian_id = 1, guardian_name = ''Ann'', phone = ''1'', email = ''ann@example.org''\<rparr>,
      \<lparr>guardian_id = 2, guardian_name = ''Bob'', phone = ''2'', email = ''bob@example.org''\<rparr>]"

text \<open>The locked view, ten seconds over the default limit of 360 minutes.\<close>

definition locked_app :: app where
  "locked_app =
     initial_app\<lparr>view := Locked, isLocked := True, usageSeconds := 21610,
                 guardians := two_guardians\<rparr>"

text \<open>What \<open>fetchData\<close> receives on a day without usage.\<close>

definition rollover_fetch :: fetched where
  "rollover_fetch =
     \<lparr>userData = guest_profile, guardiansData = two_guardians, total_seconds = 0,
      routinesData = []\<rparr>"

text \<open>The parsed response \<open>{"score": 150, "recommendation": "rest"}\<close>.\<close>

definition score_150 :: jsval where
  "score_150 = JObj [(''score'', JNum 150), (''recommendation'', JStr ''rest'')]"

text \<open>The parsed response \<open>{"score": -20, "recommendation": 7}\<close>.\<close>

definition score_minus_20 :: jsval where
  "score_minus_20 = JObj [(''score'', JNum (- 20)), (''recommendation'', JNum 7)]"

text \<open>A state whose advisory is the stored answer score 40, "Stretch your legs.".\<close>

definition advised_app :: app where
  "advised_app =
     initial_app\<lparr>usageSeconds := 120, fatigueLevel := JNum 40,
                 recommendation := JStr ''Stretch your legs.''\<rparr>"

definition fresh_system :: system where
  "fresh_system = \<lparr>server = empty_database, client = initial_app\<rparr>"

text \<open>
  The component is mounted fifteen seconds before midnight (UTC) of the first day; the
  interval fires ten and twenty seconds later, five seconds before and five seconds
  after midnight.
\<close>

definition midnight_run :: "system option" where
  "midnight_run = map_option (ticks [86395, 86405]) (mount 86385 [] [] fresh_system)"

text \<open>
  The same run on a server that holds a profile with a limit of one minute and five
  rows of ten seconds from the first day.
\<close>

definition one_minute_server :: database where
  "one_minute_server =
     record_calls
       [(100, ''Vigilant App'', Whole 10), (110, ''Vigilant App'', Whole 10), (120, ''Vigilant App'', Whole 10),
        (130, ''Vigilant App'', Whole 10), (140, ''Vigilant App'', Whole 10)]
       (api_post_user \<lparr>name = ''User'', role = ''student'', daily_limit_minutes = 1\<rparr>
          empty_database)"

definition stale_counter_run :: "system option" where
  "stale_counter_run =
     map_option (ticks [86395, 86405])
       (mount 86385 [] [] \<lparr>server = one_minute_server, client = initial_app\<rparr>)"



section \<open>The lock\<close>

lemma lock_effect_isLocked:
  "isLocked (lock_effect s) = (isLocked s \<or> usageSeconds s > limitSeconds s)"
  by (auto simp: lock_effect_def)

lemma analyzeFatigue_frame:
  "\<exists>f t. analyzeFatigue r s = Inr (s\<lparr>fatigueLevel := f, recommendation := t\<rparr>)"
proof -
  have same: "s = s\<lparr>fatigueLevel := fatigueLevel s, recommendation := recommendation s\<rparr>"
    by simp
  have half: "\<And>f. s\<lparr>fatigueLevel := f\<rparr> = s\<lparr>fatigueLevel := f, recommendation := recommendation s\<rparr>"
    by simp
  show ?thesis
  proof (cases "parse_response r")
    case (Inl e)
    then have "analyzeFatigue r s = Inr s"
      by (simp add: analyzeFatigue_def analyzeFatigue_try_def)
    then show ?thesis using same by metis
  next
    case (Inr result)
    show ?thesis
    proof (cases "result = JNull")
      case True
      then have "analyzeFatigue r s = Inr s"
        using Inr by (simp add: analyzeFatigue_def analyzeFatigue_try_def get_property_def)
      then show ?thesis using same by metis
    next
      case False
      then obtain p q where "get_property result ''score'' = Inr p"
        and "get_property result ''recommendation'' = Inr q"
        by (cases result) (simp_all add: get_property_def)
      then have "analyzeFatigue r s
          = Inr (s\<lparr>fatigueLevel := or_default p (JNum 0),
                   recommendation := or_default q (JStr ''Take a short break.'')\<rparr>)"
        using Inr by (simp add: analyzeFatigue_def analyzeFatigue_try_def)
      then show ?thesis by blast
    qed
  qed
qed

lemma handler_analyzeFatigue_isLocked:
  "isLocked (handler (AnalyzeFatigue r) s) = isLocked s"
proof -
  obtain f t where "analyzeFatigue r s = Inr (s\<lparr>fatigueLevel := f, recommendation := t\<rparr>)"
    using analyzeFatigue_frame by blast
  then show ?thesis by simp
qed

lemma handler_keeps_lock: "a \<noteq> UnlockSystem \<Longrightarrow> isLocked s \<Longrightarrow> isLocked (handler a s)"
proof (cases a)
  case (AnalyzeFatigue r)
  assume "isLocked s"
  then show ?thesis using AnalyzeFatigue by (simp only: handler_analyzeFatigue_isLocked)
qed (auto simp: fetchData_def trackUsage_def click_emergency_def handleEmergency_def
       timeout_fires_def updateProfile_def navigate_def
       split: option.splits view.splits list.splits)

lemma rerender_keeps_lock: "isLocked s' \<Longrightarrow> isLocked (rerender s s')"
  by (simp add: rerender_def lock_effect_def)

lemma step_keeps_lock: "a \<noteq> UnlockSystem \<Longrightarrow> isLocked s \<Longrightarrow> isLocked (step a s)"
  by (simp add: step_def rerender_keeps_lock handler_keeps_lock)

lemma run_keeps_lock: "UnlockSystem \<notin> set as \<Longrightarrow> isLocked s \<Longrightarrow> isLocked (run as s)"
  by (induction as arbitrary: s) (auto simp: step_keeps_lock)

lemma step_unlock: "\<not> isLocked (step UnlockSystem s)"
  by (simp add: step_def rerender_def unlockSystem_def)

text \<open>
  C2. In the locked state every sequence of actions without \<open>unlockSystem\<close> leaves the
  state locked, whatever the actions do to the usage counter; a single action unlocks
  if and only if it is \<open>unlockSystem\<close>; in particular a \<open>fetchData\<close> that sets the counter
  to zero, as after a period rollover, leaves the state locked.
\<close>

theorem locked_until_unlock:
  "isLocked s \<Longrightarrow>
     (UnlockSystem \<notin> set as \<longrightarrow> isLocked (run as s))
     \<and> (isLocked (step a s) \<longleftrightarrow> a \<noteq> UnlockSystem)
     \<and> isLocked (step (FetchData (Some (d\<lparr>total_seconds := 0\<rparr>))) s)"
proof -
  assume l: "isLocked s"
  have 1: "UnlockSystem \<notin> set as \<longrightarrow> isLocked (run as s)"
    using l by (simp add: run_keeps_lock)
  have 2: "isLocked (step a s) \<longleftrightarrow> a \<noteq> UnlockSystem"
    using l step_keeps_lock [of a s] step_unlock [of s] by blast
  have 3: "isLocked (step (FetchData (Some (d\<lparr>total_seconds := 0\<rparr>))) s)"
    using l by (simp add: step_keeps_lock)
  show ?thesis using 1 2 3 by blast
qed

theorem locked_until_unlock_witness:
  "isLocked locked_app
   \<and> isLocked (run [FetchData (Some rollover_fetch), TrackUsage True] locked_app)
   \<and> usageSeconds (step (FetchData (Some rollover_fetch)) locked_app) = 0
   \<and> isLocked (step (FetchData (Some rollover_fetch)) locked_app)
   \<and> \<not> isLocked (step UnlockSystem locked_app)"
proof -
  have l: "isLocked locked_app"
    by (simp add: locked_app_def)
  have u: "usageSeconds (step (FetchData (Some rollover_fetch)) locked_app) = 0"
    by (simp add: step_def rerender_def fetchData_def rollover_fetch_def lock_effect_def)
  show ?thesis
    using l u
      locked_until_unlock [OF l, of "[FetchData (Some rollover_fetch), TrackUsage True]"
        UnlockSystem rollover_fetch]
      locked_until_unlock [OF l, of "[]" "FetchData (Some rollover_fetch)" rollover_fetch]
    by simp
qed

section \<open>The advisory\<close>

lemma failure_unchanged: "oracle_failure r \<Longrightarrow> analyzeFatigue r s = Inr s"
  by (cases r rule: oracle_failure.cases)
     (simp_all add: analyzeFatigue_def analyzeFatigue_try_def parse_response_def
        get_property_def)

text \<open>
  C4. The score is stored as the response gives it: after the response
  \<open>{"score": 150, "recommendation": "rest"}\<close> the cell \<open>fatigueLevel\<close> holds 150, which is
  outside the range 0-100 that the cell's comment gives.
\<close>

theorem score_150_stored:
  "analyzeFatigue (Json score_150) initial_app
     = Inr (initial_app\<lparr>fatigueLevel := JNum 150, recommendation := JStr ''rest''\<rparr>)
   \<and> \<not> score_in_range (JNum 150)"
  by (simp add: analyzeFatigue_def analyzeFatigue_try_def parse_response_def get_property_def
      or_default_def score_150_def score_in_range_def Let_def)

text \<open>
  C7, as the code has it. \<open>analyzeFatigue\<close> never hands an error to its caller, whatever
  the oracle does. No timeout is set: while the call does not settle, the function
  does not finish and sets nothing. When the call rejects, the text does not parse, or
  the parsed value is \<open>null\<close>, the state is the one before the call, so the advisory is the
  one stored last, and on the first run the initial one: score 0 with the text "System
  learning your patterns...". A response without text stores score 0 and the text
  "Take a short break." in place of the advisory stored last.
\<close>

theorem refresh_failure_keeps_advisory:
  "analyzeFatigue_async c s \<noteq> Some (Inl e)
   \<and> analyzeFatigue_async NeverSettles s = None
   \<and> (oracle_failure r \<longrightarrow> analyzeFatigue_async (Settles r) s = Some (Inr s))
   \<and> (oracle_failure r \<longrightarrow>
        (\<exists>s'. analyzeFatigue_async (Settles r) initial_app = Some (Inr s')
              \<and> fatigueLevel s' = JNum 0
              \<and> recommendation s' = JStr ''System learning your patterns...''))
   \<and> analyzeFatigue_async (Settles NoText) s
        = Some (Inr (s\<lparr>fatigueLevel := JNum 0,
                       recommendation := JStr ''Take a short break.''\<rparr>))"
proof -
  have 1: "analyzeFatigue_async c s \<noteq> Some (Inl e)"
  proof (cases c)
    case NeverSettles
    then show ?thesis by (simp add: analyzeFatigue_async_def)
  next
    case (Settles r')
    obtain f t where "analyzeFatigue r' s = Inr (s\<lparr>fatigueLevel := f, recommendation := t\<rparr>)"
      using analyzeFatigue_frame by blast
    then show ?thesis using Settles by (simp add: analyzeFatigue_async_def)
  qed
  have 2: "analyzeFatigue_async NeverSettles s = None"
    by (simp add: analyzeFatigue_async_def)
  have 3: "oracle_failure r \<longrightarrow> analyzeFatigue_async (Settles r) s = Some (Inr s)"
    by (simp add: analyzeFatigue_async_def failure_unchanged)
  have 4: "oracle_failure r \<longrightarrow>
        (\<exists>s'. analyzeFatigue_async (Settles r) initial_app = Some (Inr s')
              \<and> fatigueLevel s' = JNum 0
              \<and> recommendation s' = JStr ''System learning your patterns...'')"
    by (simp add: analyzeFatigue_async_def failure_unchanged) (simp add: initial_app_def)
  have 5: "analyzeFatigue_async (Settles NoText) s
        = Some (Inr (s\<lparr>fatigueLevel := JNum 0,
                       recommendation := JStr ''Take a short break.''\<rparr>))"
    by (simp add: analyzeFatigue_async_def analyzeFatigue_def analyzeFatigue_try_def
        parse_response_def get_property_def or_default_def Let_def)
  show ?thesis using 1 2 3 4 5 by blast
qed

theorem refresh_failure_keeps_advisory_witness:
  "oracle_failure Unparseable
   \<and> analyzeFatigue_async (Settles Unparseable) initial_app = Some (Inr initial_app)
   \<and> fatigueLevel initial_app = JNum 0
   \<and> oracle_failure CallRejects
   \<and> analyzeFatigue_async (Settles CallRejects) advised_app = Some (Inr advised_app)
   \<and> oracle_failure (Json JNull)
   \<and> analyzeFatigue_async (Settles (Json JNull)) advised_app = Some (Inr advised_app)
   \<and> analyzeFatigue_async NeverSettles advised_app = None"
  using refresh_failure_keeps_advisory [of "Settles Unparseable" initial_app OracleError Unparseable]
    refresh_failure_keeps_advisory [of "Settles CallRejects" advised_app OracleError CallRejects]
    refresh_failure_keeps_advisory [of NeverSettles advised_app TypeError "Json JNull"]
  by (simp add: initial_app_def)

text \<open>
  The claim as stated fails. On a state that holds the advisory score 40, "Stretch your
  legs.", the parseable response \<open>{"score": -20, "recommendation": 7}\<close> is stored as it
  is, which is no well-formed advisory; a response without text replaces the advisory
  stored last by the defaults; and a call that does not settle never times out.
\<close>

theorem malformed_content_counterexample:
  "well_formed_advisory advised_app
   \<and> analyzeFatigue_async (Settles (Json score_minus_20)) advised_app
       = Some (Inr (advised_app\<lparr>fatigueLevel := JNum (- 20), recommendation := JNum 7\<rparr>))
   \<and> \<not> well_formed_advisory
         (advised_app\<lparr>fatigueLevel := JNum (- 20), recommendation := JNum 7\<rparr>)
   \<and> analyzeFatigue_async (Settles NoText) advised_app
       = Some (Inr (advised_app\<lparr>fatigueLevel := JNum 0,
                               recommendation := JStr ''Take a short break.''\<rparr>))
   \<and> fatigueLevel advised_app \<noteq> JNum 0
   \<and> analyzeFatigue_async NeverSettles advised_app = None"
  by (simp add: analyzeFatigue_async_def analyzeFatigue_def analyzeFatigue_try_def
      parse_response_def get_property_def or_default_def Let_def score_minus_20_def
      advised_app_def initial_app_def well_formed_advisory_def score_in_range_def is_text_def)

text \<open>
  C8. Whatever the oracle does, \<open>analyzeFatigue\<close> changes no cell other than
  \<open>fatigueLevel\<close> and \<open>recommendation\<close>; \<open>isLocked\<close> and the view are the same before and
  after, also once the effects have run.
\<close>

theorem advisory_keeps_lock:
  "isLocked (step (AnalyzeFatigue r) s) = isLocked s
   \<and> view (step (AnalyzeFatigue r) s) = view s
   \<and> (\<exists>f t. analyzeFatigue r s = Inr (s\<lparr>fatigueLevel := f, recommendation := t\<rparr>))"
proof -
  obtain f t where h: "analyzeFatigue r s = Inr (s\<lparr>fatigueLevel := f, recommendation := t\<rparr>)"
    using analyzeFatigue_frame by blast
  then have "isLocked (step (AnalyzeFatigue r) s) = isLocked s
      \<and> view (step (AnalyzeFatigue r) s) = view s"
    by (simp add: step_def rerender_def)
  moreover have "\<exists>f t. analyzeFatigue r s = Inr (s\<lparr>fatigueLevel := f, recommendation := t\<rparr>)"
    using h by blast
  ultimately show ?thesis by blast
qed

theorem advisory_keeps_lock_witness:
  "isLocked (step (AnalyzeFatigue (Json score_150)) locked_app)
   \<and> \<not> isLocked (step (AnalyzeFatigue (Json score_150)) one_minute_app)"
  using advisory_keeps_lock [of "Json score_150" locked_app]
    advisory_keeps_lock [of "Json score_150" one_minute_app]
  by (simp add: locked_app_def one_minute_app_def initial_app_def)

section \<open>The emergency\<close>

text \<open>
  C5. \<open>handleEmergency\<close> has no guard. In the locked view two presses of the emergency
  button before the first callback runs schedule two callbacks, and two alerts are
  shown; from the dashboard, whose button is disabled while the flag is set, the same
  presses show one.
\<close>

theorem double_press_two_alerts:
  "alerts (run [ClickEmergency, ClickEmergency, TimeoutFires, TimeoutFires] locked_app)
     = [two_guardians, two_guardians]
   \<and> alerts (run [ClickEmergency, ClickEmergency, TimeoutFires, TimeoutFires]
        (locked_app\<lparr>view := Dashboard\<rparr>)) = [two_guardians]"
  by (simp add: locked_app_def initial_app_def step_def rerender_def click_emergency_def
      handleEmergency_def timeout_fires_def)

section \<open>The profile\<close>

text \<open>
  C9. When the users table has no row, \<open>GET /api/user\<close> answers the profile with name
  "Guest", role "it_worker" and a daily limit of 360 minutes.
\<close>

theorem get_user_default:
  "users db = [] \<Longrightarrow>
   api_get_user db
     = (None, \<lparr>name = ''Guest'', role = ''it_worker'', daily_limit_minutes = 360\<rparr>)"
  by (simp add: api_get_user_def select_user_limit_1_def guest_profile_def)

theorem get_user_default_witness:
  "users empty_database = [] \<and>
   api_get_user empty_database
     = (None, \<lparr>name = ''Guest'', role = ''it_worker'', daily_limit_minutes = 360\<rparr>)"
  using get_user_default [of empty_database] by (simp add: empty_database_def)

text \<open>
  C10. After \<open>POST /api/user\<close> the users table has exactly one row, whatever it held
  before, and \<open>GET /api/user\<close> answers the profile that was posted.
\<close>

theorem post_user_singleton:
  "length (users (api_post_user body db)) = 1
   \<and> snd (api_get_user (api_post_user body db)) = body"
  by (simp add: api_post_user_def insert_into_users_def delete_from_users_def api_get_user_def
      select_user_limit_1_def UserProfile.truncate_def)

section \<open>The usage total\<close>




lemma sql_sum_snoc: "sql_sum (xs @ [x]) = sum_step (sql_sum xs) x"
  by (simp add: sql_sum_def)

lemma or_zero_Some: "or_zero (Some x) = x"
  by (simp add: or_zero_def)


lemma day_sum_post_other:
  "day_sum now (api_post_usage t (a, d) db)
     = (if sql_date now \<le> sql_date t then sum_step (day_sum now db) (stored_number d)
        else day_sum now db)"
  by (simp add: day_sum_def logs_today_def api_post_usage_def sql_sum_snoc)

lemma stored_ten: "stored_number (Whole 10) = SqlInteger 10"
  by (simp add: stored_number_def double_of_int_def)


lemma day_sum_empty: "day_sum now empty_database = SumNull"
  by (simp add: empty_database_def day_sum_def logs_today_def sql_sum_def)


lemma floorlog_5e18: "floorlog 2 5000000000000000000 = 63"
  by (simp add: compute_floorlog)


lemma stored_5e18: "stored_number (Whole 5000000000000000000) = SqlInteger 5000000000000000000"
  by (simp add: stored_number_def double_of_int_def floorlog_5e18 round_half_even_def)





text \<open>
  The literal \<open>2^53 + 1\<close> is stored as \<open>2^53\<close>, and two rows of \<open>5000000000000000000\<close>
  make \<open>SUM\<close> overflow.
\<close>

lemma floorlog_2_53_1: "floorlog 2 9007199254740993 = 54"
  by (simp add: compute_floorlog)

lemma stored_number_rounds: "stored_number (Whole 9007199254740993) = SqlInteger 9007199254740992"
  by (simp add: stored_number_def double_of_int_def floorlog_2_53_1 round_half_even_def)

lemma sum_overflow_500:
  "api_stats 100
     (record_calls [(50, ''Vigilant App'', Whole 5000000000000000000),
                    (60, ''Vigilant App'', Whole 5000000000000000000)] empty_database) = Http500"
  by (simp add: api_stats_def day_sum_post_other day_sum_empty sql_date_def stored_5e18
      in_int64_def)

lemma api_stats_day_sum_integer:
  "day_sum now db = SumInteger i \<Longrightarrow> api_stats now db = TotalSeconds (double_of_int i)"
  by (simp add: api_stats_def or_zero_Some)

lemma api_stats_day_sum_null: "day_sum now db = SumNull \<Longrightarrow> api_stats now db = TotalSeconds 0"
  by (simp add: api_stats_def or_zero_def)

lemma mount_total:
  "api_stats now (server sys) = TotalSeconds t \<Longrightarrow>
   mount now gs rs sys
     = Some (sys\<lparr>client :=
               step (FetchData (Some \<lparr>userData = snd (api_get_user (server sys)),
                                      guardiansData = gs, total_seconds = t,
                                      routinesData = rs\<rparr>)) (client sys)\<rparr>)"
  by (simp add: mount_def)

lemma client_tick: "client (tick t sys) = step (TrackUsage True) (client sys)"
  by (simp add: tick_def)

lemma server_tick: "server (tick t sys) = api_post_usage t (''Vigilant App'', Whole 10) (server sys)"
  by (simp add: tick_def)

lemma api_get_user_post_usage: "api_get_user (api_post_usage t b db) = api_get_user db"
  by (simp add: api_get_user_def select_user_limit_1_def api_post_usage_def)

lemma day_sum_post_user: "day_sum now (api_post_user b db) = day_sum now db"
  by (simp add: day_sum_def logs_today_def api_post_user_def insert_into_users_def
      delete_from_users_def)

text \<open>
  C3. The total that the component shows and compares with the limit is not the sum of
  the durations recorded since the start of the day. Mounted fifteen seconds before
  midnight on a server without rows, after one tick before and one tick after midnight
  the component's counter is 20, while \<open>GET /api/stats\<close>, which filters the stored rows
  by the day, answers 10: the counter is kept by adding ten per tick and is not reset
  at the day's start.
\<close>

theorem counter_not_reset_at_midnight:
  "map_option (\<lambda>S. (usageSeconds (client S), api_stats 86405 (server S))) midnight_run
     = Some (20, TotalSeconds 10)"
proof -
  have "api_stats 86385 (server fresh_system) = TotalSeconds 0"
    by (simp add: fresh_system_def api_stats_day_sum_null day_sum_empty)
  then have m: "midnight_run
      = Some (ticks [86395, 86405]
          (fresh_system\<lparr>client :=
             step (FetchData (Some \<lparr>userData = snd (api_get_user (server fresh_system)),
                                    guardiansData = [], total_seconds = 0,
                                    routinesData = []\<rparr>)) (client fresh_system)\<rparr>))"
    by (simp add: midnight_run_def mount_total)
  have c: "usageSeconds
      (step (TrackUsage True) (step (TrackUsage True)
         (step (FetchData (Some \<lparr>userData = snd (api_get_user (server fresh_system)),
                                  guardiansData = [], total_seconds = 0,
                                  routinesData = []\<rparr>)) (client fresh_system)))) = 20"
    by (simp add: step_def rerender_def lock_effect_def trackUsage_def fetchData_def)
  have d: "day_sum 86405
      (api_post_usage 86405 (''Vigilant App'', Whole 10)
         (api_post_usage 86395 (''Vigilant App'', Whole 10) empty_database)) = SumInteger 10"
    by (simp add: day_sum_post_other day_sum_empty sql_date_def stored_ten)
  have s: "api_stats 86405
      (api_post_usage 86405 (''Vigilant App'', Whole 10)
         (api_post_usage 86395 (''Vigilant App'', Whole 10) empty_database)) = TotalSeconds 10"
    using api_stats_day_sum_integer [OF d] by (simp add: double_of_int_def)
  show ?thesis
    using c s by (simp add: m client_tick server_tick) (simp add: fresh_system_def)
qed

lemma day_sum_one_minute_server:
  "day_sum t one_minute_server = (if sql_date t = 0 then SumInteger 50 else SumNull)"
  by (simp add: one_minute_server_def day_sum_post_other day_sum_post_user day_sum_empty
      sql_date_def stored_ten in_int64_def)

lemma api_get_user_one_minute_server:
  "snd (api_get_user one_minute_server)
     = \<lparr>name = ''User'', role = ''student'', daily_limit_minutes = 1\<rparr>"
  by (simp add: one_minute_server_def api_get_user_post_usage)
     (simp add: api_get_user_def select_user_limit_1_def api_post_user_def
        insert_into_users_def delete_from_users_def UserProfile.truncate_def)

text \<open>
  C1. The lock is decided on the component's counter, not on the current day's total.
  With a limit of one minute and fifty seconds recorded on the first day, the component
  mounted fifteen seconds before midnight is locked by the tick five seconds after
  midnight, at a counter of 70, while the total of the day that has begun is 10 against
  a limit of 60 seconds.
\<close>

theorem lock_on_stale_counter:
  "map_option
     (\<lambda>S. (isLocked (client S), usageSeconds (client S),
            daily_limit_minutes (user (client S)), api_stats 86405 (server S)))
     stale_counter_run
   = Some (True, 70, 1, TotalSeconds 10)"
proof -
  let ?sys = "\<lparr>server = one_minute_server, client = initial_app\<rparr>"
  let ?c = "step (FetchData (Some \<lparr>userData = snd (api_get_user one_minute_server),
                                  guardiansData = [], total_seconds = 50,
                                  routinesData = []\<rparr>)) initial_app"
  have "day_sum 86385 one_minute_server = SumInteger 50"
    by (simp add: day_sum_one_minute_server sql_date_def)
  then have "api_stats 86385 (server ?sys) = TotalSeconds 50"
    using api_stats_day_sum_integer [of 86385 one_minute_server 50]
    by (simp add: double_of_int_def)
  then have m: "stale_counter_run = Some (ticks [86395, 86405] (?sys\<lparr>client := ?c\<rparr>))"
    using mount_total [of 86385 ?sys 50 "[]" "[]"] by (simp add: stale_counter_run_def)
  have c: "step (TrackUsage True) (step (TrackUsage True) ?c)
      = initial_app\<lparr>user := \<lparr>name = ''User'', role = ''student'', daily_limit_minutes = 1\<rparr>,
                    usageSeconds := 70, isLocked := True, view := Locked\<rparr>"
    by (simp add: api_get_user_one_minute_server step_def rerender_def lock_effect_def
        limitSeconds_def trackUsage_def fetchData_def initial_app_def)
  have d: "day_sum 86405
      (api_post_usage 86405 (''Vigilant App'', Whole 10)
         (api_post_usage 86395 (''Vigilant App'', Whole 10) one_minute_server)) = SumInteger 10"
    by (simp add: day_sum_post_other day_sum_one_minute_server sql_date_def stored_ten
        in_int64_def)
  have s: "api_stats 86405
      (api_post_usage 86405 (''Vigilant App'', Whole 10)
         (api_post_usage 86395 (''Vigilant App'', Whole 10) one_minute_server)) = TotalSeconds 10"
    using api_stats_day_sum_integer [OF d] by (simp add: double_of_int_def)
  show ?thesis
    using s by (simp add: m client_tick server_tick c)
qed

end
